theory Spec2Isabelle
  imports Main
begin

section \<open>FoodRankr backend: values, documents and the store\<close>

text \<open>
  The embedding follows \<^verbatim>\<open>src/main.py\<close>. A request handler is a function of the
  store it reads, the values the environment hands it (the clock reading, the
  identifier the store assigns to an inserted document, the signing key) and its
  request body. It returns its outcome together with the store it leaves behind, so a
  write that happens before a failure stays visible.
\<close>

subsection \<open>Time\<close>

text \<open>
  \<^verbatim>\<open>datetime\<close> and \<^verbatim>\<open>timedelta\<close> values count microseconds, the resolution
  of Python's \<^verbatim>\<open>datetime\<close>. A handler reads the clock once.
\<close>

type_synonym datetime = int
type_synonym timedelta = int

definition timedelta_minutes :: "int \<Rightarrow> timedelta" where
  "timedelta_minutes m = m * 60 * 1000000"

definition timedelta_hours :: "int \<Rightarrow> timedelta" where
  "timedelta_hours h = h * 3600 * 1000000"

definition ACCESS_TOKEN_EXPIRE_MINUTES :: int where
  "ACCESS_TOKEN_EXPIRE_MINUTES = 60 * 24"

subsection \<open>Failures\<close>

text \<open>
  \<open>HTTPException status detail\<close> is the exception the handlers raise themselves.
  \<open>InvalidId\<close> is the exception of the \<^verbatim>\<open>ObjectId\<close> constructor; no handler
  catches it, so a request that raises it does not end in one of the handlers' own
  responses.
\<close>

datatype error = HTTPException nat string | InvalidId

subsection \<open>Store identifiers\<close>

text \<open>
  Modelled from the spec: the identifier type \<^verbatim>\<open>bson.ObjectId\<close> is imported by
  \<^verbatim>\<open>src/main.py\<close> and is not in \<^verbatim>\<open>src/\<close>. A well-formed store id is a text of
  24 hexadecimal digits; the constructor raises \<open>InvalidId\<close> on any other text; two
  identifiers are equal when their digits agree up to letter case, and \<^verbatim>\<open>str\<close> prints
  the digits in lower case.
\<close>

datatype object_id = OID string

definition is_hex :: "char \<Rightarrow> bool" where
  "is_hex c = (c \<in> set ''0123456789abcdefABCDEF'')"

definition lower_hex :: "char \<Rightarrow> char" where
  "lower_hex c = (case map_of (zip ''ABCDEF'' ''abcdef'') c of Some d \<Rightarrow> d | None \<Rightarrow> c)"

definition is_valid :: "string \<Rightarrow> bool" where
  "is_valid s = (length s = 24 \<and> list_all is_hex s)"

definition ObjectId :: "string \<Rightarrow> error + object_id" where
  "ObjectId s = (if is_valid s then Inr (OID (map lower_hex s)) else Inl InvalidId)"

fun str_oid :: "object_id \<Rightarrow> string" where
  "str_oid (OID h) = h"

subsection \<open>Python truthiness\<close>

text \<open>
  \<^verbatim>\<open>if x:\<close> on an optional text: \<^verbatim>\<open>None\<close> and the empty text are false.
\<close>

fun truthy :: "string option \<Rightarrow> bool" where
  "truthy None = False"
| "truthy (Some s) = (s \<noteq> [])"

subsection \<open>Documents\<close>

record user =
  u_id :: object_id
  u_email :: string
  u_hashed_password :: string
  u_full_name :: string
  u_country :: string
  u_company_id :: "string option"
  u_cafe_name :: "string option"
  u_is_admin :: bool
  u_created_at :: datetime
  u_updated_at :: datetime

record company =
  c_id :: object_id
  c_name :: string
  c_country :: string
  c_approved :: bool
  c_created_by :: "string option"
  c_created_at :: datetime
  c_updated_at :: datetime

record pendingcompanyrequest =
  pr_id :: object_id
  pr_name :: string
  pr_country :: string
  pr_requested_by :: "string option"
  pr_approved :: bool
  pr_created_at :: datetime
  pr_updated_at :: datetime

text \<open>
  A calendar date is kept as its ISO 8601 text, which is what \<^verbatim>\<open>date.isoformat()\<close>
  stores on the document.
\<close>

type_synonym date = string

record foodrank =
  fr_id :: object_id
  fr_user_id :: string
  fr_company_id :: string
  fr_cafe_name :: string
  fr_country :: string
  fr_date :: date
  fr_dish :: string
  fr_rating :: int
  fr_image_url :: "string option"
  fr_comment :: "string option"
  fr_created_at :: datetime
  fr_updated_at :: datetime

subsection \<open>The store\<close>

text \<open>
  Modelled from the spec: the document store \<^verbatim>\<open>database.db\<close> is imported by
  \<^verbatim>\<open>src/main.py\<close> and is not in \<^verbatim>\<open>src/\<close>. It holds one collection per document
  kind and provides single-document operations: \<^verbatim>\<open>find_one\<close> returns the first
  document that matches or nothing, \<^verbatim>\<open>insert_one\<close> adds one document under the
  identifier the store assigns, \<^verbatim>\<open>update_one\<close> changes the first document that
  matches.
\<close>

record store =
  user_coll :: "user list"
  company_coll :: "company list"
  pendingcompanyrequest_coll :: "pendingcompanyrequest list"
  foodrank_coll :: "foodrank list"

definition find_one :: "('a \<Rightarrow> bool) \<Rightarrow> 'a list \<Rightarrow> 'a option" where
  "find_one q coll = List.find q coll"

definition insert_one :: "'a \<Rightarrow> 'a list \<Rightarrow> 'a list" where
  "insert_one doc coll = coll @ [doc]"

fun update_one :: "('a \<Rightarrow> bool) \<Rightarrow> ('a \<Rightarrow> 'a) \<Rightarrow> 'a list \<Rightarrow> 'a list" where
  "update_one q f [] = []"
| "update_one q f (d # ds) = (if q d then f d # ds else d # update_one q f ds)"

section \<open>Bearer tokens\<close>

text \<open>
  \<^verbatim>\<open>jwt.encode\<close> and \<^verbatim>\<open>jwt.decode\<close> of the library \<^verbatim>\<open>jose\<close> are imported
  by \<^verbatim>\<open>src/main.py\<close> and are not in \<^verbatim>\<open>src/\<close>. The model follows the library as
  the code calls it, which is not the spec's wording for \<^verbatim>\<open>validate\<close>. The
  signature is symbolic: a token is either a text that is no signed token, or a set of
  claims together with the key that signed it. Encoding stores the expiry claim in
  whole seconds, dropping the microseconds of the \<^verbatim>\<open>datetime\<close>. Decoding fails
  when the signature does not verify under the key, or when the expiry second is
  strictly before the current time in whole seconds; the code passes no leeway. A
  token whose expiry second is the current second still decodes.
\<close>

definition to_seconds :: "datetime \<Rightarrow> int" where
  "to_seconds t = t div 1000000"

record claims =
  cl_sub :: "string option"
  cl_exp :: "int option"

datatype token = Malformed string | JWS string claims

datatype jwt_error = JWTError

definition jwt_encode :: "claims \<Rightarrow> string \<Rightarrow> token" where
  "jwt_encode to_encode key =
     JWS key (to_encode\<lparr>cl_exp := map_option to_seconds (cl_exp to_encode)\<rparr>)"

fun jwt_decode :: "token \<Rightarrow> string \<Rightarrow> datetime \<Rightarrow> jwt_error + claims" where
  "jwt_decode (Malformed t) key now = Inl JWTError"
| "jwt_decode (JWS k payload) key now =
     (if k \<noteq> key then Inl JWTError
      else (case cl_exp payload of
              None \<Rightarrow> Inr payload
            | Some exp_seconds \<Rightarrow>
                if exp_seconds < to_seconds now then Inl JWTError else Inr payload))"

text \<open>
  \<^verbatim>\<open>expires_delta or timedelta(minutes=ACCESS_TOKEN_EXPIRE_MINUTES)\<close>: Python's
  \<^verbatim>\<open>or\<close> takes the right operand when the left one is false, and both
  \<^verbatim>\<open>None\<close> and \<^verbatim>\<open>timedelta(0)\<close> are false.
\<close>

fun timedelta_or :: "timedelta option \<Rightarrow> timedelta \<Rightarrow> timedelta" where
  "timedelta_or None d = d"
| "timedelta_or (Some e) d = (if e = 0 then d else e)"

definition create_access_token ::
  "string \<Rightarrow> datetime \<Rightarrow> claims \<Rightarrow> timedelta option \<Rightarrow> token" where
  "create_access_token SECRET_KEY utcnow data expires_delta =
     (let expire = utcnow + timedelta_or expires_delta (timedelta_minutes ACCESS_TOKEN_EXPIRE_MINUTES);
          to_encode = data\<lparr>cl_exp := Some expire\<rparr>
      in jwt_encode to_encode SECRET_KEY)"

section \<open>Identity resolution\<close>

definition credentials_exception :: error where
  "credentials_exception = HTTPException 401 ''Could not validate credentials''"

text \<open>
  \<^verbatim>\<open>get_current_user\<close>: the \<^verbatim>\<open>try\<close> block covers decoding and the test of the
  subject claim only; \<^verbatim>\<open>ObjectId(user_id)\<close> is evaluated after it.
\<close>

definition get_current_user :: "string \<Rightarrow> datetime \<Rightarrow> store \<Rightarrow> token \<Rightarrow> error + user" where
  "get_current_user SECRET_KEY utcnow db tok =
     (case jwt_decode tok SECRET_KEY utcnow of
        Inl JWTError \<Rightarrow> Inl credentials_exception
      | Inr payload \<Rightarrow>
          (case cl_sub payload of
             None \<Rightarrow> Inl credentials_exception
           | Some user_id \<Rightarrow>
               (case ObjectId user_id of
                  Inl e \<Rightarrow> Inl e
                | Inr oid \<Rightarrow>
                    (case find_one (\<lambda>u. u_id u = oid) (user_coll db) of
                       None \<Rightarrow> Inl credentials_exception
                     | Some u \<Rightarrow> Inr u))))"

definition require_admin :: "user \<Rightarrow> error + user" where
  "require_admin u =
     (if \<not> u_is_admin u then Inl (HTTPException 403 ''Admin privileges required'') else Inr u)"

section \<open>Profiles\<close>

text \<open>
  \<^verbatim>\<open>serialize_user\<close> builds the response from nine named entries of the user
  document; \<^verbatim>\<open>hashed_password\<close> is not one of them.
\<close>

record profile =
  p_id :: string
  p_email :: string
  p_full_name :: string
  p_country :: string
  p_company_id :: "string option"
  p_cafe_name :: "string option"
  p_is_admin :: bool
  p_created_at :: datetime
  p_updated_at :: datetime

fun serialize_user :: "user option \<Rightarrow> profile option" where
  "serialize_user None = None"
| "serialize_user (Some u) =
     Some \<lparr>p_id = str_oid (u_id u),
           p_email = u_email u,
           p_full_name = u_full_name u,
           p_country = u_country u,
           p_company_id = u_company_id u,
           p_cafe_name = u_cafe_name u,
           p_is_admin = u_is_admin u,
           p_created_at = u_created_at u,
           p_updated_at = u_updated_at u\<rparr>"

definition me :: "user \<Rightarrow> profile option" where
  "me u = serialize_user (Some u)"

definition get_profile :: "user \<Rightarrow> profile option" where
  "get_profile u = serialize_user (Some u)"

section \<open>Registration\<close>

record RegisterModel =
  rm_email :: string
  rm_password :: string
  rm_full_name :: string
  rm_country :: string
  rm_company :: "string option"
  rm_cafe_name :: "string option"

definition get_user_by_email :: "store \<Rightarrow> string \<Rightarrow> user option" where
  "get_user_by_email db email = find_one (\<lambda>u. u_email u = email) (user_coll db)"

text \<open>
  The lookup of \<^verbatim>\<open>register\<close> for a reference that is not empty: first by
  identifier when the reference is a well-formed one, then by exact name.
\<close>

definition lookup_company :: "store \<Rightarrow> string \<Rightarrow> company option" where
  "lookup_company db ref =
     (let cmp = (if is_valid ref
                  then (case ObjectId ref of
                          Inl e \<Rightarrow> None
                        | Inr oid \<Rightarrow> find_one (\<lambda>c. c_id c = oid) (company_coll db))
                  else None)
      in (case cmp of
            None \<Rightarrow> find_one (\<lambda>c. c_name c = ref) (company_coll db)
          | Some c \<Rightarrow> Some c))"

text \<open>
  The company step of \<^verbatim>\<open>register\<close>: the \<^verbatim>\<open>company_id\<close> of the new user and the
  store after the step. \<open>new_id\<close> is the identifier the store assigns if a pending
  request is inserted.
\<close>

definition register_company ::
  "datetime \<Rightarrow> object_id \<Rightarrow> store \<Rightarrow> RegisterModel \<Rightarrow> string option \<times> store" where
  "register_company utcnow new_id db payload =
     (if truthy (rm_company payload)
      then (case rm_company payload of
              None \<Rightarrow> (None, db)
            | Some ref \<Rightarrow>
                (case lookup_company db ref of
                   Some cmp \<Rightarrow> (Some (str_oid (c_id cmp)), db)
                 | None \<Rightarrow>
                     (None,
                      db\<lparr>pendingcompanyrequest_coll :=
                           insert_one
                             \<lparr>pr_id = new_id,
                              pr_name = ref,
                              pr_country = rm_country payload,
                              pr_requested_by = None,
                              pr_approved = False,
                              pr_created_at = utcnow,
                              pr_updated_at = utcnow\<rparr>
                             (pendingcompanyrequest_coll db)\<rparr>)))
      else (None, db))"

text \<open>
  \<open>get_password_hash\<close> is the salted hash of the credential store, an opaque
  primitive; \<open>request_id\<close> and \<open>user_id\<close> are the identifiers the store assigns to the
  pending request and to the user document.
\<close>

definition register ::
  "string \<Rightarrow> datetime \<Rightarrow> (string \<Rightarrow> string) \<Rightarrow> object_id \<Rightarrow> object_id \<Rightarrow> store \<Rightarrow> RegisterModel
     \<Rightarrow> (error + token) \<times> store" where
  "register SECRET_KEY utcnow get_password_hash request_id user_id db payload =
     (case get_user_by_email db (rm_email payload) of
        Some existing \<Rightarrow> (Inl (HTTPException 400 ''Email already registered''), db)
      | None \<Rightarrow>
          (let (company_id, db1) = register_company utcnow request_id db payload;
               hashed = get_password_hash (rm_password payload);
               user_doc = \<lparr>u_id = user_id,
                           u_email = rm_email payload,
                           u_hashed_password = hashed,
                           u_full_name = rm_full_name payload,
                           u_country = rm_country payload,
                           u_company_id = company_id,
                           u_cafe_name = rm_cafe_name payload,
                           u_is_admin = False,
                           u_created_at = utcnow,
                           u_updated_at = utcnow\<rparr>;
               db2 = db1\<lparr>user_coll := insert_one user_doc (user_coll db1)\<rparr>;
               access_token =
                 create_access_token SECRET_KEY utcnow
                   \<lparr>cl_sub = Some (str_oid user_id), cl_exp = None\<rparr> None
           in (Inr access_token, db2)))"

section \<open>Companies\<close>

record CompanyCreateModel =
  ccm_name :: string
  ccm_country :: string

definition create_company ::
  "datetime \<Rightarrow> object_id \<Rightarrow> store \<Rightarrow> CompanyCreateModel \<Rightarrow> user \<Rightarrow> (error + company) \<times> store" where
  "create_company utcnow new_id db data u =
     (let approved_flag = u_is_admin u;
          existing = find_one (\<lambda>c. c_name c = ccm_name data \<and> c_country c = ccm_country data)
                       (company_coll db)
      in (case existing of
            Some c \<Rightarrow> (Inl (HTTPException 400 ''Company already exists''), db)
          | None \<Rightarrow>
              (let doc = \<lparr>c_id = new_id,
                          c_name = ccm_name data,
                          c_country = ccm_country data,
                          c_approved = approved_flag,
                          c_created_by = Some (str_oid (u_id u)),
                          c_created_at = utcnow,
                          c_updated_at = utcnow\<rparr>
               in (Inr doc, db\<lparr>company_coll := insert_one doc (company_coll db)\<rparr>))))"

section \<open>Profile update\<close>

record ProfileUpdateModel =
  pum_country :: "string option"
  pum_company_id :: "string option"
  pum_cafe_name :: "string option"
  pum_full_name :: "string option"

text \<open>
  The \<^verbatim>\<open>updates\<close> dictionary: an entry is present when it is not \<open>None\<close>.
  \<open>apply_updates\<close> is what both \<^verbatim>\<open>$set\<close> and \<^verbatim>\<open>dict.update\<close> do with it.
\<close>

record updates =
  up_country :: "string option"
  up_cafe_name :: "string option"
  up_full_name :: "string option"
  up_company_id :: "string option"
  up_updated_at :: "datetime option"

definition no_updates :: "updates \<Rightarrow> bool" where
  "no_updates us =
     (up_country us = None \<and> up_cafe_name us = None \<and> up_full_name us = None
      \<and> up_company_id us = None \<and> up_updated_at us = None)"

definition apply_updates :: "updates \<Rightarrow> user \<Rightarrow> user" where
  "apply_updates us u =
     u\<lparr>u_country := (case up_country us of None \<Rightarrow> u_country u | Some v \<Rightarrow> v),
       u_cafe_name := (case up_cafe_name us of None \<Rightarrow> u_cafe_name u | Some v \<Rightarrow> Some v),
       u_full_name := (case up_full_name us of None \<Rightarrow> u_full_name u | Some v \<Rightarrow> v),
       u_company_id := (case up_company_id us of None \<Rightarrow> u_company_id u | Some v \<Rightarrow> Some v),
       u_updated_at := (case up_updated_at us of None \<Rightarrow> u_updated_at u | Some v \<Rightarrow> v)\<rparr>"

text \<open>
  The company step of \<^verbatim>\<open>update_profile\<close>, run when \<^verbatim>\<open>data.company_id\<close> is not
  \<open>None\<close>. The guard \<^verbatim>\<open>data.company_id and not ObjectId.is_valid(...)\<close> lets the
  empty text through to the constructor.
\<close>

definition check_company :: "store \<Rightarrow> string \<Rightarrow> updates \<Rightarrow> error + updates" where
  "check_company db company_id us =
     (if company_id \<noteq> [] \<and> \<not> is_valid company_id
      then Inl (HTTPException 400 ''Invalid company id'')
      else (case ObjectId company_id of
              Inl e \<Rightarrow> Inl e
            | Inr oid \<Rightarrow>
                (case find_one (\<lambda>c. c_id c = oid) (company_coll db) of
                   None \<Rightarrow> Inl (HTTPException 400 ''Company not approved'')
                 | Some cmp \<Rightarrow>
                     if \<not> c_approved cmp
                     then Inl (HTTPException 400 ''Company not approved'')
                     else Inr (us\<lparr>up_company_id := Some company_id\<rparr>))))"

definition update_profile ::
  "datetime \<Rightarrow> store \<Rightarrow> ProfileUpdateModel \<Rightarrow> user \<Rightarrow> (error + profile option) \<times> store" where
  "update_profile utcnow db data u =
     (let us0 = \<lparr>up_country = pum_country data,
                 up_cafe_name = pum_cafe_name data,
                 up_full_name = pum_full_name data,
                 up_company_id = None,
                 up_updated_at = None\<rparr>
      in (case (case pum_company_id data of
                  None \<Rightarrow> Inr us0
                | Some company_id \<Rightarrow> check_company db company_id us0) of
            Inl e \<Rightarrow> (Inl e, db)
          | Inr us1 \<Rightarrow>
              if no_updates us1 then (Inr (serialize_user (Some u)), db)
              else (let us2 = us1\<lparr>up_updated_at := Some utcnow\<rparr>
                    in (Inr (serialize_user (Some (apply_updates us2 u))),
                        db\<lparr>user_coll :=
                             update_one (\<lambda>d. u_id d = u_id u) (apply_updates us2) (user_coll db)\<rparr>))))"

section \<open>Ranks\<close>

record RankCreateModel =
  rcm_date :: date
  rcm_dish :: string
  rcm_rating :: int
  rcm_comment :: "string option"
  rcm_image_url :: "string option"

text \<open>
  \<^verbatim>\<open>user.get("cafe_name") or ""\<close>: the empty text when the user has no cafe name.
\<close>

fun or_empty :: "string option \<Rightarrow> string" where
  "or_empty None = []"
| "or_empty (Some s) = (if s = [] then [] else s)"

definition create_rank ::
  "datetime \<Rightarrow> object_id \<Rightarrow> store \<Rightarrow> RankCreateModel \<Rightarrow> user \<Rightarrow> (error + foodrank) \<times> store" where
  "create_rank utcnow new_id db data u =
     (case u_company_id u of
        None \<Rightarrow> (Inl (HTTPException 400 ''User has no company assigned''), db)
      | Some company_id \<Rightarrow>
          if company_id = []
          then (Inl (HTTPException 400 ''User has no company assigned''), db)
          else if rcm_rating data < 1 \<or> rcm_rating data > 5
          then (Inl (HTTPException 400 ''Rating must be 1-5''), db)
          else (let doc = \<lparr>fr_id = new_id,
                           fr_user_id = str_oid (u_id u),
                           fr_company_id = company_id,
                           fr_cafe_name = or_empty (u_cafe_name u),
                           fr_country = u_country u,
                           fr_date = rcm_date data,
                           fr_dish = rcm_dish data,
                           fr_rating = rcm_rating data,
                           fr_image_url = rcm_image_url data,
                           fr_comment = rcm_comment data,
                           fr_created_at = utcnow,
                           fr_updated_at = utcnow\<rparr>
                in (Inr doc, db\<lparr>foodrank_coll := insert_one doc (foodrank_coll db)\<rparr>)))"

section \<open>Example data\<close>

definition empty_store :: store where
  "empty_store =
     \<lparr>user_coll = [], company_coll = [], pendingcompanyrequest_coll = [], foodrank_coll = []\<rparr>"

definition alice :: user where
  "alice = \<lparr>u_id = OID ''0123456789abcdef01234567'',
            u_email = ''alice@example.com'',
            u_hashed_password = ''$2b$12$abcdefghijklmnopqrstuv'',
            u_full_name = ''Alice'',
            u_country = ''US'',
            u_company_id = None,
            u_cafe_name = None,
            u_is_admin = False,
            u_created_at = 0,
            u_updated_at = 0\<rparr>"

definition alice_store :: store where
  "alice_store = empty_store\<lparr>user_coll := [alice]\<rparr>"

definition alice_claims :: claims where
  "alice_claims = \<lparr>cl_sub = Some ''0123456789abcdef01234567'', cl_exp = None\<rparr>"

definition acme :: company where
  "acme = \<lparr>c_id = OID ''aaaaaaaaaaaaaaaaaaaaaaaa'',
           c_name = ''Acme'',
           c_country = ''US'',
           c_approved = False,
           c_created_by = None,
           c_created_at = 0,
           c_updated_at = 0\<rparr>"

definition acme_store :: store where
  "acme_store = empty_store\<lparr>company_coll := [acme]\<rparr>"

definition nameless :: company where
  "nameless = acme\<lparr>c_name := []\<rparr>"

definition nameless_store :: store where
  "nameless_store = empty_store\<lparr>company_coll := [nameless]\<rparr>"

definition bob_request :: "string option \<Rightarrow> RegisterModel" where
  "bob_request ref = \<lparr>rm_email = ''bob@example.com'',
                       rm_password = ''hunter2'',
                       rm_full_name = ''Bob'',
                       rm_country = ''US'',
                       rm_company = ref,
                       rm_cafe_name = None\<rparr>"

definition fixed_hash :: "string \<Rightarrow> string" where
  "fixed_hash pw = ''$2b$12$'' @ rev pw"

definition carol :: user where
  "carol = alice\<lparr>u_id := OID ''cccccccccccccccccccccccc'',
                 u_email := ''carol@example.com'',
                 u_company_id := Some ''aaaaaaaaaaaaaaaaaaaaaaaa'',
                 u_cafe_name := Some ''Canteen''\<rparr>"

definition dave :: user where
  "dave = carol\<lparr>u_cafe_name := None, u_is_admin := True\<rparr>"

definition lunch :: "int \<Rightarrow> RankCreateModel" where
  "lunch r = \<lparr>rcm_date = ''2024-05-17'',
              rcm_dish = ''Dal'',
              rcm_rating = r,
              rcm_comment = None,
              rcm_image_url = None\<rparr>"

definition carol_rank :: foodrank where
  "carol_rank = \<lparr>fr_id = OID ''dddddddddddddddddddddddd'',
                 fr_user_id = ''cccccccccccccccccccccccc'',
                 fr_company_id = ''aaaaaaaaaaaaaaaaaaaaaaaa'',
                 fr_cafe_name = ''Canteen'',
                 fr_country = ''US'',
                 fr_date = ''2024-05-17'',
                 fr_dish = ''Dal'',
                 fr_rating = 4,
                 fr_image_url = None,
                 fr_comment = None,
                 fr_created_at = 3,
                 fr_updated_at = 3\<rparr>"

section \<open>Facts about the store operations\<close>

lemma find_one_None: "(find_one q coll = None) = (\<not> (\<exists>d \<in> set coll. q d))"
  by (auto simp: find_one_def find_None_iff)

lemma find_one_Some_mem: "find_one q coll = Some d \<Longrightarrow> d \<in> set coll \<and> q d"
  by (auto simp: find_one_def find_Some_iff)

lemmas example_defs =
  empty_store_def alice_def alice_store_def alice_claims_def acme_def acme_store_def
  nameless_def nameless_store_def bob_request_def carol_def dave_def lunch_def carol_rank_def

lemmas id_defs = ObjectId_def is_valid_def is_hex_def lower_hex_def

lemmas token_defs =
  create_access_token_def jwt_encode_def to_seconds_def timedelta_minutes_def
  timedelta_hours_def ACCESS_TOKEN_EXPIRE_MINUTES_def

lemma ObjectId_alice: "ObjectId ''0123456789abcdef01234567'' = Inr (OID ''0123456789abcdef01234567'')"
  by (simp add: id_defs)

lemma ObjectId_acme: "ObjectId ''aaaaaaaaaaaaaaaaaaaaaaaa'' = Inr (OID ''aaaaaaaaaaaaaaaaaaaaaaaa'')"
  by (simp add: id_defs)

section \<open>Identity resolution and tokens\<close>

text \<open>
  C1. The claim: identity resolution fails with the one 401 response
  \<open>Could not validate credentials\<close> for every token it rejects. The code leaves the
  conversion of the subject to a store id outside its \<^verbatim>\<open>try\<close> block and does not
  test the subject with \<^verbatim>\<open>ObjectId.is_valid\<close> as the other handlers do. A token
  signed with the server's key whose subject is no well-formed store id does not get
  the 401 response: the request ends in the uncaught \<open>InvalidId\<close>.
\<close>

theorem get_current_user_malformed_subject:
  "get_current_user key 1 db
     (create_access_token key 0 \<lparr>cl_sub = Some ''abc'', cl_exp = None\<rparr> None)
   = Inl InvalidId"
  by (simp add: get_current_user_def token_defs ObjectId_def is_valid_def)

text \<open>
  What does hold: a failure of \<open>get_current_user\<close> is the 401 response or the
  uncaught \<open>InvalidId\<close>, and it is the 401 response whenever the token is not a signed
  token whose subject is ill-formed.
\<close>

lemma get_current_user_failure:
  assumes "get_current_user key now db tok = Inl e"
  shows "e = credentials_exception
       \<or> (e = InvalidId \<and> (\<exists>payload s. tok = JWS key payload \<and> cl_sub payload = Some s \<and> \<not> is_valid s))"
proof (cases tok)
  case (Malformed t)
  with assms show ?thesis by (simp add: get_current_user_def)
next
  case (JWS k payload)
  with assms show ?thesis
    by (auto simp: get_current_user_def ObjectId_def
        split: sum.splits jwt_error.splits option.splits if_splits)
qed

text \<open>
  C2, as the claim states it, fails twice. A token issued at time 0 with a
  time-to-live of one minute still resolves at the expiry instant itself, since the
  expiry is rejected only when its second is strictly before the current second. And
  \<^verbatim>\<open>expires_delta or timedelta(...)\<close> takes the default for \<^verbatim>\<open>timedelta(0)\<close>,
  so a token issued at time 0 with time-to-live 0 still resolves a minute later.
\<close>

theorem token_expiry_counterexample:
  "get_current_user ''k'' 60000000 alice_store
     (create_access_token ''k'' 0 alice_claims (Some 60000000)) = Inr alice
   \<and> get_current_user ''k'' 60000000 alice_store
     (create_access_token ''k'' 0 alice_claims (Some 0)) = Inr alice"
  by (simp add: get_current_user_def token_defs id_defs example_defs find_one_def)

text \<open>
  C2, amended. Take a token issued at time \<open>t0\<close> for a subject that resolves to a
  stored user. With a time-to-live \<open>T\<close> other than zero it resolves to that user at
  every time up to and including \<open>t0 + T\<close>, and more exactly as long as the current
  second is not after the second of \<open>t0 + T\<close>; it fails with the 401 response once the
  current second is after that one, so at every time a full second or more past
  \<open>t0 + T\<close>. A token issued with a time-to-live of zero is the token issued with none,
  and a token issued with none is the token issued with 24 hours.
\<close>

theorem token_validity_window:
  assumes "cl_sub data = Some s"
    and "ObjectId s = Inr oid"
    and "find_one (\<lambda>d. u_id d = oid) (user_coll db) = Some u"
  shows "(T \<noteq> 0 \<and> to_seconds now \<le> to_seconds (t0 + T) \<longrightarrow>
            get_current_user key now db (create_access_token key t0 data (Some T)) = Inr u)
       \<and> (T \<noteq> 0 \<and> to_seconds (t0 + T) < to_seconds now \<longrightarrow>
            get_current_user key now db (create_access_token key t0 data (Some T))
              = Inl credentials_exception)
       \<and> (T \<noteq> 0 \<and> now \<le> t0 + T \<longrightarrow>
            get_current_user key now db (create_access_token key t0 data (Some T)) = Inr u)
       \<and> (T \<noteq> 0 \<and> t0 + T + 1000000 \<le> now \<longrightarrow>
            get_current_user key now db (create_access_token key t0 data (Some T))
              = Inl credentials_exception)
       \<and> create_access_token key t0 data (Some 0) = create_access_token key t0 data None
       \<and> create_access_token key t0 data None
            = create_access_token key t0 data (Some (timedelta_hours 24))"
proof -
  have early: "to_seconds now \<le> to_seconds (t0 + T)" if "now \<le> t0 + T"
    using that by (simp add: to_seconds_def zdiv_mono1)
  have late: "to_seconds (t0 + T) < to_seconds now" if "t0 + T + 1000000 \<le> now"
  proof -
    have "to_seconds (t0 + T) + 1 = to_seconds (t0 + T + 1000000)"
      by (simp add: to_seconds_def)
    also have "\<dots> \<le> to_seconds now"
      using that by (simp add: to_seconds_def zdiv_mono1)
    finally show ?thesis by simp
  qed
  have ok: "get_current_user key now db (create_access_token key t0 data (Some T)) = Inr u"
    if "T \<noteq> 0" and "to_seconds now \<le> to_seconds (t0 + T)"
    using that assms
    by (simp add: get_current_user_def create_access_token_def jwt_encode_def)
  have expired: "get_current_user key now db (create_access_token key t0 data (Some T))
                   = Inl credentials_exception"
    if "T \<noteq> 0" and "to_seconds (t0 + T) < to_seconds now"
    using that assms
    by (simp add: get_current_user_def create_access_token_def jwt_encode_def)
  have zero: "create_access_token key t0 data (Some 0) = create_access_token key t0 data None"
    by (simp add: create_access_token_def)
  have none: "create_access_token key t0 data None
                = create_access_token key t0 data (Some (timedelta_hours 24))"
    by (simp add: create_access_token_def timedelta_minutes_def timedelta_hours_def
        ACCESS_TOKEN_EXPIRE_MINUTES_def)
  from early late ok expired zero none show ?thesis by blast
qed

theorem token_validity_window_witness:
  "get_current_user ''k'' 59999999 alice_store
     (create_access_token ''k'' 0 alice_claims (Some 60000000)) = Inr alice
   \<and> get_current_user ''k'' 60000000 alice_store
     (create_access_token ''k'' 0 alice_claims (Some 60000000)) = Inr alice
   \<and> get_current_user ''k'' 60999999 alice_store
     (create_access_token ''k'' 0 alice_claims (Some 60000000)) = Inr alice
   \<and> get_current_user ''k'' 61000000 alice_store
     (create_access_token ''k'' 0 alice_claims (Some 60000000)) = Inl credentials_exception
   \<and> create_access_token ''k'' 0 alice_claims (Some 0)
     = create_access_token ''k'' 0 alice_claims None
   \<and> create_access_token ''k'' 0 alice_claims None
     = create_access_token ''k'' 0 alice_claims (Some 86400000000)"
proof -
  have c: "cl_sub alice_claims = Some ''0123456789abcdef01234567''"
    by (simp add: alice_claims_def)
  have f: "find_one (\<lambda>d. u_id d = OID ''0123456789abcdef01234567'') (user_coll alice_store)
             = Some alice"
    by (simp add: find_one_def example_defs)
  note w = token_validity_window [OF c ObjectId_alice f, where key = "''k''" and ?t0.0 = 0
             and T = 60000000]
  have n: "(60000000::int) \<noteq> 0" by simp
  have 1: "get_current_user ''k'' 59999999 alice_store
             (create_access_token ''k'' 0 alice_claims (Some 60000000)) = Inr alice"
    using w [where now = 59999999] n by simp
  have 2: "get_current_user ''k'' 60000000 alice_store
             (create_access_token ''k'' 0 alice_claims (Some 60000000)) = Inr alice"
    using w [where now = 60000000] n by simp
  have 3: "get_current_user ''k'' 60999999 alice_store
             (create_access_token ''k'' 0 alice_claims (Some 60000000)) = Inr alice"
    using w [where now = 60999999] n by (simp add: to_seconds_def)
  have 4: "get_current_user ''k'' 61000000 alice_store
             (create_access_token ''k'' 0 alice_claims (Some 60000000))
             = Inl credentials_exception"
    using w [where now = 61000000] n by simp
  have 5: "create_access_token ''k'' 0 alice_claims (Some 0)
             = create_access_token ''k'' 0 alice_claims None"
    using w by blast
  have 6: "create_access_token ''k'' 0 alice_claims None
             = create_access_token ''k'' 0 alice_claims (Some 86400000000)"
    using w by (simp add: timedelta_hours_def)
  from 1 2 3 4 5 6 show ?thesis by blast
qed

section \<open>Profiles and the password hash\<close>

text \<open>
  C10. The profile that \<^verbatim>\<open>/auth/me\<close> and \<^verbatim>\<open>/user/profile\<close> return does not depend
  on the stored password hash: two user records that differ only in
  \<open>hashed_password\<close> serialize to the same profile.
\<close>

theorem serialize_user_hides_password:
  "serialize_user (Some (u\<lparr>u_hashed_password := h\<rparr>)) = serialize_user (Some u)
   \<and> me (u\<lparr>u_hashed_password := h\<rparr>) = me u
   \<and> get_profile (u\<lparr>u_hashed_password := h\<rparr>) = get_profile u"
  by (simp add: me_def get_profile_def)

section \<open>Profile update\<close>

text \<open>
  C3. The claim: a profile update whose \<open>company_id\<close> is no well-formed store id
  fails with 400 \<open>Invalid company id\<close>. The guard of the code,
  \<^verbatim>\<open>data.company_id and not ObjectId.is_valid(data.company_id)\<close>, is false for the
  empty text, which then reaches \<^verbatim>\<open>ObjectId(data.company_id)\<close>: the request ends
  in the uncaught \<open>InvalidId\<close>, with nothing written.
\<close>

theorem update_profile_empty_company_id:
  "update_profile now db
     \<lparr>pum_country = c, pum_company_id = Some [], pum_cafe_name = n, pum_full_name = f\<rparr> u
   = (Inl InvalidId, db)"
  by (simp add: update_profile_def check_company_def ObjectId_def is_valid_def)

text \<open>
  What does hold for a \<open>company_id\<close> that is not empty: the two failures of the claim,
  and on success the supplied value and the clock reading on the profile and on the
  stored document.
\<close>

lemma update_profile_invalid_company_id:
  assumes "pum_company_id data = Some cid" and "cid \<noteq> []" and "\<not> is_valid cid"
  shows "update_profile now db data u = (Inl (HTTPException 400 ''Invalid company id''), db)"
  using assms by (simp add: update_profile_def check_company_def)

lemma update_profile_company_not_approved:
  assumes "pum_company_id data = Some cid" and "ObjectId cid = Inr oid"
    and "find_one (\<lambda>c. c_id c = oid) (company_coll db) = None
         \<or> (\<exists>c. find_one (\<lambda>c. c_id c = oid) (company_coll db) = Some c \<and> \<not> c_approved c)"
  shows "update_profile now db data u = (Inl (HTTPException 400 ''Company not approved''), db)"
  using assms
  by (auto simp: update_profile_def check_company_def ObjectId_def split: if_splits)

lemma update_profile_company_assigned:
  assumes "pum_company_id data = Some cid" and "ObjectId cid = Inr oid"
    and "find_one (\<lambda>c. c_id c = oid) (company_coll db) = Some c" and "c_approved c"
  shows "\<exists>us p. update_profile now db data u
                  = (Inr (Some p),
                     db\<lparr>user_coll := update_one (\<lambda>d. u_id d = u_id u) (apply_updates us) (user_coll db)\<rparr>)
               \<and> p_company_id p = Some cid \<and> p_updated_at p = now
               \<and> u_company_id (apply_updates us u) = Some cid
               \<and> u_updated_at (apply_updates us u) = now"
proof -
  let ?us = "\<lparr>up_country = pum_country data, up_cafe_name = pum_cafe_name data,
              up_full_name = pum_full_name data, up_company_id = Some cid,
              up_updated_at = Some now\<rparr>"
  have v: "is_valid cid"
    using assms(2) by (simp add: ObjectId_def split: if_splits)
  have "update_profile now db data u
          = (Inr (serialize_user (Some (apply_updates ?us u))),
             db\<lparr>user_coll := update_one (\<lambda>d. u_id d = u_id u) (apply_updates ?us) (user_coll db)\<rparr>)"
    using assms v by (simp add: update_profile_def check_company_def no_updates_def Let_def)
  moreover have "u_company_id (apply_updates ?us u) = Some cid"
    and "u_updated_at (apply_updates ?us u) = now"
    by (simp_all add: apply_updates_def)
  ultimately show ?thesis by fastforce
qed

section \<open>Company creation\<close>

text \<open>
  C4. A company-creation request fails exactly when the store holds a company with
  the same name and country, and then with \<open>Company already exists\<close> and no write;
  otherwise it inserts one company whose \<open>approved\<close> flag is the creator's
  \<open>is_admin\<close> flag.
\<close>

theorem create_company_conflict_approved:
  "((\<exists>e. fst (create_company now cid db data u) = Inl e)
      = (\<exists>c \<in> set (company_coll db). c_name c = ccm_name data \<and> c_country c = ccm_country data))
   \<and> ((\<exists>c \<in> set (company_coll db). c_name c = ccm_name data \<and> c_country c = ccm_country data) \<longrightarrow>
        create_company now cid db data u = (Inl (HTTPException 400 ''Company already exists''), db))
   \<and> (\<not> (\<exists>c \<in> set (company_coll db). c_name c = ccm_name data \<and> c_country c = ccm_country data) \<longrightarrow>
        (\<exists>doc. create_company now cid db data u
                 = (Inr doc, db\<lparr>company_coll := company_coll db @ [doc]\<rparr>)
              \<and> c_name doc = ccm_name data \<and> c_country doc = ccm_country data
              \<and> c_approved doc = u_is_admin u))"
proof -
  let ?q = "\<lambda>c. c_name c = ccm_name data \<and> c_country c = ccm_country data"
  define existing where "existing = find_one ?q (company_coll db)"
  show ?thesis
  proof (cases existing)
    case None
    then have f: "find_one ?q (company_coll db) = None" by (simp add: existing_def)
    then have "\<not> (\<exists>c \<in> set (company_coll db). ?q c)" by (simp add: find_one_None)
    with f show ?thesis by (simp add: create_company_def Let_def insert_one_def)
  next
    case (Some c)
    then have f: "find_one ?q (company_coll db) = Some c" by (simp add: existing_def)
    then have "\<exists>c \<in> set (company_coll db). ?q c" using find_one_Some_mem by fastforce
    with f show ?thesis by (simp add: create_company_def Let_def)
  qed
qed

theorem create_company_conflict_approved_witness:
  "create_company 7 (OID ''eeeeeeeeeeeeeeeeeeeeeeee'') acme_store
      \<lparr>ccm_name = ''Acme'', ccm_country = ''US''\<rparr> dave
     = (Inl (HTTPException 400 ''Company already exists''), acme_store)
   \<and> (\<exists>doc. create_company 7 (OID ''eeeeeeeeeeeeeeeeeeeeeeee'') acme_store
               \<lparr>ccm_name = ''Acme'', ccm_country = ''DE''\<rparr> dave
              = (Inr doc, acme_store\<lparr>company_coll := company_coll acme_store @ [doc]\<rparr>)
            \<and> c_approved doc = True)
   \<and> (\<exists>doc. create_company 7 (OID ''eeeeeeeeeeeeeeeeeeeeeeee'') acme_store
               \<lparr>ccm_name = ''Acme'', ccm_country = ''DE''\<rparr> carol
              = (Inr doc, acme_store\<lparr>company_coll := company_coll acme_store @ [doc]\<rparr>)
            \<and> c_approved doc = False)"
proof -
  let ?us = "\<lparr>ccm_name = ''Acme'', ccm_country = ''US''\<rparr>"
  let ?de = "\<lparr>ccm_name = ''Acme'', ccm_country = ''DE''\<rparr>"
  have taken: "\<exists>c \<in> set (company_coll acme_store). c_name c = ccm_name ?us \<and> c_country c = ccm_country ?us"
    by (simp add: example_defs)
  have free: "\<not> (\<exists>c \<in> set (company_coll acme_store). c_name c = ccm_name ?de \<and> c_country c = ccm_country ?de)"
    by (simp add: example_defs)
  have admin: "u_is_admin dave = True" and plain: "u_is_admin carol = False"
    by (simp_all add: example_defs)
  have 1: "create_company 7 (OID ''eeeeeeeeeeeeeeeeeeeeeeee'') acme_store ?us dave
             = (Inl (HTTPException 400 ''Company already exists''), acme_store)"
    using create_company_conflict_approved
            [of 7 "OID ''eeeeeeeeeeeeeeeeeeeeeeee''" acme_store ?us dave] taken
    by blast
  have 2: "\<exists>doc. create_company 7 (OID ''eeeeeeeeeeeeeeeeeeeeeeee'') acme_store ?de dave
              = (Inr doc, acme_store\<lparr>company_coll := company_coll acme_store @ [doc]\<rparr>)
            \<and> c_approved doc = True"
    using create_company_conflict_approved
            [of 7 "OID ''eeeeeeeeeeeeeeeeeeeeeeee''" acme_store ?de dave] free admin
    by metis
  have 3: "\<exists>doc. create_company 7 (OID ''eeeeeeeeeeeeeeeeeeeeeeee'') acme_store ?de carol
              = (Inr doc, acme_store\<lparr>company_coll := company_coll acme_store @ [doc]\<rparr>)
            \<and> c_approved doc = False"
    using create_company_conflict_approved
            [of 7 "OID ''eeeeeeeeeeeeeeeeeeeeeeee''" acme_store ?de carol] free plain
    by metis
  from 1 2 3 show ?thesis by blast
qed

section \<open>Registration and the company reference\<close>

lemmas register_defs =
  register_def register_company_def lookup_company_def get_user_by_email_def
  find_one_def insert_one_def

text \<open>
  The lookup finds the company with the reference as identifier, and only when there
  is none the first company with the reference as name.
\<close>

lemma lookup_company_found:
  assumes "by_id = (case ObjectId ref of
                      Inl e \<Rightarrow> None
                    | Inr oid \<Rightarrow> find_one (\<lambda>c. c_id c = oid) (company_coll db))"
    and "by_id = Some c
         \<or> (by_id = None \<and> find_one (\<lambda>c. c_name c = ref) (company_coll db) = Some c)"
  shows "lookup_company db ref = Some c"
  using assms by (auto simp: lookup_company_def ObjectId_def split: if_splits)

lemma lookup_company_not_found:
  assumes "(case ObjectId ref of
              Inl e \<Rightarrow> None
            | Inr oid \<Rightarrow> find_one (\<lambda>c. c_id c = oid) (company_coll db)) = None"
    and "find_one (\<lambda>c. c_name c = ref) (company_coll db) = None"
  shows "lookup_company db ref = None"
  using assms by (auto simp: lookup_company_def ObjectId_def split: if_splits)

text \<open>The four ways a registration ends.\<close>

lemma register_email_taken:
  assumes "get_user_by_email db (rm_email p) \<noteq> None"
  shows "register key now h rid uid db p
           = (Inl (HTTPException 400 ''Email already registered''), db)"
  using assms by (auto simp: register_def)

lemma register_no_reference:
  assumes "get_user_by_email db (rm_email p) = None"
    and "rm_company p = None \<or> rm_company p = Some []"
  shows "register key now h rid uid db p
           = (Inr (create_access_token key now \<lparr>cl_sub = Some (str_oid uid), cl_exp = None\<rparr> None),
              db\<lparr>user_coll := user_coll db @
                   [\<lparr>u_id = uid, u_email = rm_email p, u_hashed_password = h (rm_password p),
                     u_full_name = rm_full_name p, u_country = rm_country p,
                     u_company_id = None, u_cafe_name = rm_cafe_name p,
                     u_is_admin = False, u_created_at = now, u_updated_at = now\<rparr>]\<rparr>)"
  using assms by (auto simp: register_def register_company_def insert_one_def)

lemma register_company_found:
  assumes "get_user_by_email db (rm_email p) = None"
    and "rm_company p = Some ref"
    and "ref \<noteq> []"
    and "lookup_company db ref = Some c"
  shows "register key now h rid uid db p
           = (Inr (create_access_token key now \<lparr>cl_sub = Some (str_oid uid), cl_exp = None\<rparr> None),
              db\<lparr>user_coll := user_coll db @
                   [\<lparr>u_id = uid, u_email = rm_email p, u_hashed_password = h (rm_password p),
                     u_full_name = rm_full_name p, u_country = rm_country p,
                     u_company_id = Some (str_oid (c_id c)), u_cafe_name = rm_cafe_name p,
                     u_is_admin = False, u_created_at = now, u_updated_at = now\<rparr>]\<rparr>)"
  using assms by (simp add: register_def register_company_def insert_one_def)

lemma register_company_not_found:
  assumes "get_user_by_email db (rm_email p) = None"
    and "rm_company p = Some ref"
    and "ref \<noteq> []"
    and "lookup_company db ref = None"
  shows "register key now h rid uid db p
           = (Inr (create_access_token key now \<lparr>cl_sub = Some (str_oid uid), cl_exp = None\<rparr> None),
              db\<lparr>pendingcompanyrequest_coll := pendingcompanyrequest_coll db @
                   [\<lparr>pr_id = rid, pr_name = ref, pr_country = rm_country p,
                     pr_requested_by = None, pr_approved = False,
                     pr_created_at = now, pr_updated_at = now\<rparr>],
                 user_coll := user_coll db @
                   [\<lparr>u_id = uid, u_email = rm_email p, u_hashed_password = h (rm_password p),
                     u_full_name = rm_full_name p, u_country = rm_country p,
                     u_company_id = None, u_cafe_name = rm_cafe_name p,
                     u_is_admin = False, u_created_at = now, u_updated_at = now\<rparr>]\<rparr>)"
  using assms by (simp add: register_def register_company_def insert_one_def)

text \<open>
  C5, as the claim states it, fails for the empty reference: \<^verbatim>\<open>if payload.company:\<close>
  skips the lookup, so a registration whose reference is the empty text gets no
  company, although the store holds a company with exactly that name.
\<close>

theorem register_empty_reference_counterexample:
  "rm_company (bob_request (Some [])) = Some []
   \<and> nameless \<in> set (company_coll nameless_store)
   \<and> c_name nameless = []
   \<and> map u_company_id
        (user_coll (snd (register ''k'' 0 fixed_hash (OID ''bbbbbbbbbbbbbbbbbbbbbbbb'')
                           (OID ''0123456789abcdef01234567'') nameless_store (bob_request (Some [])))))
      = [None]"
  by (simp add: example_defs register_defs)

text \<open>
  C5, amended. Take a registration with an unregistered email. If its company
  reference is not empty and matches a company (the one with that identifier when the
  reference is a well-formed store id that resolves, else the first one with exactly
  that name), it succeeds, stores one new user whose \<open>company_id\<close> is that company's
  id, and writes nothing else, whatever the company's \<open>approved\<close> flag. If its
  reference is absent or empty, no lookup is made: it succeeds, stores one new user
  whose \<open>company_id\<close> is empty, and writes nothing else, whatever companies the store
  holds.
\<close>

theorem register_existing_company:
  assumes "get_user_by_email db (rm_email p) = None"
  shows "(rm_company p = Some ref \<and> ref \<noteq> []
          \<and> by_id = (case ObjectId ref of
                       Inl e \<Rightarrow> None
                     | Inr oid \<Rightarrow> find_one (\<lambda>c. c_id c = oid) (company_coll db))
          \<and> (by_id = Some c
               \<or> (by_id = None \<and> find_one (\<lambda>c. c_name c = ref) (company_coll db) = Some c))
          \<longrightarrow> (\<exists>tok doc. register key now h rid uid db p
                            = (Inr tok, db\<lparr>user_coll := user_coll db @ [doc]\<rparr>)
                         \<and> u_company_id doc = Some (str_oid (c_id c))))
       \<and> (rm_company p = None \<or> rm_company p = Some []
          \<longrightarrow> (\<exists>tok doc. register key now h rid uid db p
                            = (Inr tok, db\<lparr>user_coll := user_coll db @ [doc]\<rparr>)
                         \<and> u_company_id doc = None))"
proof (intro conjI impI)
  assume a: "rm_company p = Some ref \<and> ref \<noteq> []
          \<and> by_id = (case ObjectId ref of
                       Inl e \<Rightarrow> None
                     | Inr oid \<Rightarrow> find_one (\<lambda>c. c_id c = oid) (company_coll db))
          \<and> (by_id = Some c
               \<or> (by_id = None \<and> find_one (\<lambda>c. c_name c = ref) (company_coll db) = Some c))"
  then have "lookup_company db ref = Some c"
    using lookup_company_found by blast
  with a assms show "\<exists>tok doc. register key now h rid uid db p
                            = (Inr tok, db\<lparr>user_coll := user_coll db @ [doc]\<rparr>)
                         \<and> u_company_id doc = Some (str_oid (c_id c))"
    using register_company_found [of db p ref c key now h rid uid] by fastforce
next
  assume "rm_company p = None \<or> rm_company p = Some []"
  with assms show "\<exists>tok doc. register key now h rid uid db p
                            = (Inr tok, db\<lparr>user_coll := user_coll db @ [doc]\<rparr>)
                         \<and> u_company_id doc = None"
    using register_no_reference [of db p key now h rid uid] by fastforce
qed

theorem register_existing_company_witness:
  "c_approved acme = False
   \<and> (\<exists>tok doc. register ''k'' 0 fixed_hash (OID ''bbbbbbbbbbbbbbbbbbbbbbbb'')
                   (OID ''0123456789abcdef01234567'') acme_store (bob_request (Some ''Acme''))
                 = (Inr tok, acme_store\<lparr>user_coll := user_coll acme_store @ [doc]\<rparr>)
               \<and> u_company_id doc = Some ''aaaaaaaaaaaaaaaaaaaaaaaa'')
   \<and> (\<exists>tok doc. register ''k'' 0 fixed_hash (OID ''bbbbbbbbbbbbbbbbbbbbbbbb'')
                   (OID ''0123456789abcdef01234567'') acme_store
                   (bob_request (Some ''aaaaaaaaaaaaaaaaaaaaaaaa''))
                 = (Inr tok, acme_store\<lparr>user_coll := user_coll acme_store @ [doc]\<rparr>)
               \<and> u_company_id doc = Some ''aaaaaaaaaaaaaaaaaaaaaaaa'')
   \<and> (\<exists>tok doc. register ''k'' 0 fixed_hash (OID ''bbbbbbbbbbbbbbbbbbbbbbbb'')
                   (OID ''0123456789abcdef01234567'') nameless_store (bob_request (Some []))
                 = (Inr tok, nameless_store\<lparr>user_coll := user_coll nameless_store @ [doc]\<rparr>)
               \<and> u_company_id doc = None)"
proof -
  have e: "get_user_by_email acme_store (rm_email (bob_request r)) = None" for r
    by (simp add: get_user_by_email_def find_one_def example_defs)
  have e': "get_user_by_email nameless_store (rm_email (bob_request r)) = None" for r
    by (simp add: get_user_by_email_def find_one_def example_defs)
  have r: "rm_company (bob_request x) = x" for x
    by (simp add: bob_request_def)
  have n1: "None = (case ObjectId ''Acme'' of
                      Inl e \<Rightarrow> None
                    | Inr oid \<Rightarrow> find_one (\<lambda>c. c_id c = oid) (company_coll acme_store))"
    by (simp add: ObjectId_def is_valid_def)
  have m1: "find_one (\<lambda>c. c_name c = ''Acme'') (company_coll acme_store) = Some acme"
    by (simp add: find_one_def example_defs)
  have n2: "Some acme = (case ObjectId ''aaaaaaaaaaaaaaaaaaaaaaaa'' of
                      Inl e \<Rightarrow> None
                    | Inr oid \<Rightarrow> find_one (\<lambda>c. c_id c = oid) (company_coll acme_store))"
    by (simp add: ObjectId_acme) (simp add: find_one_def example_defs)
  have i: "str_oid (c_id acme) = ''aaaaaaaaaaaaaaaaaaaaaaaa''" and a: "c_approved acme = False"
    by (simp_all add: acme_def)
  have 1: "\<exists>tok doc. register ''k'' 0 fixed_hash (OID ''bbbbbbbbbbbbbbbbbbbbbbbb'')
                   (OID ''0123456789abcdef01234567'') acme_store (bob_request (Some ''Acme''))
                 = (Inr tok, acme_store\<lparr>user_coll := user_coll acme_store @ [doc]\<rparr>)
               \<and> u_company_id doc = Some ''aaaaaaaaaaaaaaaaaaaaaaaa''"
    using register_existing_company [OF e, where ref = "''Acme''" and by_id = None and c = acme
            and r1 = "Some ''Acme''"] r n1 m1 i
    by simp
  have 2: "\<exists>tok doc. register ''k'' 0 fixed_hash (OID ''bbbbbbbbbbbbbbbbbbbbbbbb'')
                   (OID ''0123456789abcdef01234567'') acme_store
                   (bob_request (Some ''aaaaaaaaaaaaaaaaaaaaaaaa''))
                 = (Inr tok, acme_store\<lparr>user_coll := user_coll acme_store @ [doc]\<rparr>)
               \<and> u_company_id doc = Some ''aaaaaaaaaaaaaaaaaaaaaaaa''"
    using register_existing_company [OF e, where ref = "''aaaaaaaaaaaaaaaaaaaaaaaa''"
            and by_id = "Some acme" and c = acme and r1 = "Some ''aaaaaaaaaaaaaaaaaaaaaaaa''"]
          r n2 i
    by simp
  have 3: "\<exists>tok doc. register ''k'' 0 fixed_hash (OID ''bbbbbbbbbbbbbbbbbbbbbbbb'')
                   (OID ''0123456789abcdef01234567'') nameless_store (bob_request (Some []))
                 = (Inr tok, nameless_store\<lparr>user_coll := user_coll nameless_store @ [doc]\<rparr>)
               \<and> u_company_id doc = None"
    using register_existing_company [OF e', where r1 = "Some []"] r
    by simp
  from a 1 2 3 show ?thesis by blast
qed

text \<open>
  C6, as the claim states it, fails twice. For the empty reference, which matches no
  company of the empty store, the registration creates no pending request. And a
  registration whose reference matches no company fails, with nothing written, when
  its email is already registered.
\<close>

theorem register_no_request_counterexample:
  "rm_company (bob_request (Some [])) = Some []
   \<and> company_coll empty_store = []
   \<and> pendingcompanyrequest_coll empty_store = []
   \<and> pendingcompanyrequest_coll
        (snd (register ''k'' 0 fixed_hash (OID ''bbbbbbbbbbbbbbbbbbbbbbbb'')
                (OID ''0123456789abcdef01234567'') empty_store (bob_request (Some []))))
      = []
   \<and> company_coll alice_store = []
   \<and> pendingcompanyrequest_coll alice_store = []
   \<and> register ''k'' 0 fixed_hash (OID ''bbbbbbbbbbbbbbbbbbbbbbbb'')
        (OID ''cccccccccccccccccccccccc'') alice_store
        ((bob_request (Some ''Initech''))\<lparr>rm_email := ''alice@example.com''\<rparr>)
      = (Inl (HTTPException 400 ''Email already registered''), alice_store)"
  by (simp add: example_defs register_defs)

text \<open>
  C6, amended. A registration whose email is already registered fails with 400
  \<open>Email already registered\<close> and writes nothing. Otherwise: if its company
  reference is not empty and matches no company, neither by identifier nor by exact
  name, it succeeds, adds exactly one pending request (the reference as its name, the
  registration's country, not approved, no requester) and one new user whose
  \<open>company_id\<close> is empty, whatever pending requests the store already holds; if its
  reference is absent or empty, it succeeds, adds one new user whose \<open>company_id\<close> is
  empty and no pending request.
\<close>

theorem register_unknown_company:
  "(get_user_by_email db (rm_email p) = None
    \<and> rm_company p = Some ref \<and> ref \<noteq> []
    \<and> (case ObjectId ref of
          Inl e \<Rightarrow> None
        | Inr oid \<Rightarrow> find_one (\<lambda>c. c_id c = oid) (company_coll db)) = None
    \<and> find_one (\<lambda>c. c_name c = ref) (company_coll db) = None
    \<longrightarrow> (\<exists>tok doc req.
           register key now h rid uid db p
             = (Inr tok, db\<lparr>pendingcompanyrequest_coll := pendingcompanyrequest_coll db @ [req],
                            user_coll := user_coll db @ [doc]\<rparr>)
           \<and> pr_name req = ref \<and> pr_country req = rm_country p
           \<and> pr_approved req = False \<and> pr_requested_by req = None
           \<and> u_company_id doc = None))
   \<and> (get_user_by_email db (rm_email p) = None
      \<and> (rm_company p = None \<or> rm_company p = Some [])
      \<longrightarrow> (\<exists>tok doc. register key now h rid uid db p
                        = (Inr tok, db\<lparr>user_coll := user_coll db @ [doc]\<rparr>)
                     \<and> u_company_id doc = None))
   \<and> (get_user_by_email db (rm_email p) \<noteq> None
      \<longrightarrow> register key now h rid uid db p
            = (Inl (HTTPException 400 ''Email already registered''), db))"
proof (intro conjI impI)
  assume a: "get_user_by_email db (rm_email p) = None
    \<and> rm_company p = Some ref \<and> ref \<noteq> []
    \<and> (case ObjectId ref of
          Inl e \<Rightarrow> None
        | Inr oid \<Rightarrow> find_one (\<lambda>c. c_id c = oid) (company_coll db)) = None
    \<and> find_one (\<lambda>c. c_name c = ref) (company_coll db) = None"
  then have "lookup_company db ref = None"
    using lookup_company_not_found by blast
  with a show "\<exists>tok doc req.
           register key now h rid uid db p
             = (Inr tok, db\<lparr>pendingcompanyrequest_coll := pendingcompanyrequest_coll db @ [req],
                            user_coll := user_coll db @ [doc]\<rparr>)
           \<and> pr_name req = ref \<and> pr_country req = rm_country p
           \<and> pr_approved req = False \<and> pr_requested_by req = None
           \<and> u_company_id doc = None"
    using register_company_not_found [of db p ref key now h rid uid] by fastforce
next
  assume "get_user_by_email db (rm_email p) = None
      \<and> (rm_company p = None \<or> rm_company p = Some [])"
  then show "\<exists>tok doc. register key now h rid uid db p
                        = (Inr tok, db\<lparr>user_coll := user_coll db @ [doc]\<rparr>)
                     \<and> u_company_id doc = None"
    using register_no_reference [of db p key now h rid uid] by fastforce
next
  assume "get_user_by_email db (rm_email p) \<noteq> None"
  then show "register key now h rid uid db p
            = (Inl (HTTPException 400 ''Email already registered''), db)"
    by (rule register_email_taken)
qed

theorem register_unknown_company_witness:
  "(\<exists>tok doc req.
     register ''k'' 0 fixed_hash (OID ''bbbbbbbbbbbbbbbbbbbbbbbb'')
       (OID ''0123456789abcdef01234567'') acme_store (bob_request (Some ''Initech''))
       = (Inr tok, acme_store\<lparr>pendingcompanyrequest_coll := pendingcompanyrequest_coll acme_store @ [req],
                              user_coll := user_coll acme_store @ [doc]\<rparr>)
     \<and> pr_name req = ''Initech'' \<and> pr_country req = ''US''
     \<and> pr_approved req = False \<and> pr_requested_by req = None
     \<and> u_company_id doc = None)
   \<and> (\<exists>tok doc. register ''k'' 0 fixed_hash (OID ''bbbbbbbbbbbbbbbbbbbbbbbb'')
                   (OID ''0123456789abcdef01234567'') acme_store (bob_request (Some []))
                 = (Inr tok, acme_store\<lparr>user_coll := user_coll acme_store @ [doc]\<rparr>)
               \<and> u_company_id doc = None)
   \<and> register ''k'' 0 fixed_hash (OID ''bbbbbbbbbbbbbbbbbbbbbbbb'')
        (OID ''cccccccccccccccccccccccc'') alice_store
        ((bob_request (Some ''Initech''))\<lparr>rm_email := ''alice@example.com''\<rparr>)
      = (Inl (HTTPException 400 ''Email already registered''), alice_store)"
proof -
  have e: "get_user_by_email acme_store (rm_email (bob_request r)) = None" for r
    by (simp add: get_user_by_email_def find_one_def example_defs)
  have t: "get_user_by_email alice_store
             (rm_email ((bob_request (Some ''Initech''))\<lparr>rm_email := ''alice@example.com''\<rparr>)) \<noteq> None"
    by (simp add: get_user_by_email_def find_one_def example_defs)
  have r: "rm_company (bob_request x) = x" for x
    by (simp add: bob_request_def)
  have n: "(case ObjectId ''Initech'' of
              Inl e \<Rightarrow> None
            | Inr oid \<Rightarrow> find_one (\<lambda>c. c_id c = oid) (company_coll acme_store)) = None"
    by (simp add: ObjectId_def is_valid_def)
  have m: "find_one (\<lambda>c. c_name c = ''Initech'') (company_coll acme_store) = None"
    by (simp add: find_one_def example_defs)
  have c: "rm_country (bob_request x) = ''US''" for x
    by (simp add: bob_request_def)
  have 1: "\<exists>tok doc req.
     register ''k'' 0 fixed_hash (OID ''bbbbbbbbbbbbbbbbbbbbbbbb'')
       (OID ''0123456789abcdef01234567'') acme_store (bob_request (Some ''Initech''))
       = (Inr tok, acme_store\<lparr>pendingcompanyrequest_coll := pendingcompanyrequest_coll acme_store @ [req],
                              user_coll := user_coll acme_store @ [doc]\<rparr>)
     \<and> pr_name req = ''Initech'' \<and> pr_country req = ''US''
     \<and> pr_approved req = False \<and> pr_requested_by req = None
     \<and> u_company_id doc = None"
    using register_unknown_company [where db = acme_store and p = "bob_request (Some ''Initech'')"
            and ref = "''Initech''"] e r n m c
    by simp
  have 2: "\<exists>tok doc. register ''k'' 0 fixed_hash (OID ''bbbbbbbbbbbbbbbbbbbbbbbb'')
                   (OID ''0123456789abcdef01234567'') acme_store (bob_request (Some []))
                 = (Inr tok, acme_store\<lparr>user_coll := user_coll acme_store @ [doc]\<rparr>)
               \<and> u_company_id doc = None"
    using register_unknown_company [where db = acme_store and p = "bob_request (Some [])"] e r
    by simp
  have 3: "register ''k'' 0 fixed_hash (OID ''bbbbbbbbbbbbbbbbbbbbbbbb'')
        (OID ''cccccccccccccccccccccccc'') alice_store
        ((bob_request (Some ''Initech''))\<lparr>rm_email := ''alice@example.com''\<rparr>)
      = (Inl (HTTPException 400 ''Email already registered''), alice_store)"
    using register_unknown_company [where db = alice_store
            and p = "(bob_request (Some ''Initech''))\<lparr>rm_email := ''alice@example.com''\<rparr>"] t
    by blast
  from 1 2 3 show ?thesis by blast
qed

section \<open>Rank creation\<close>

text \<open>
  C7. A rank-creation request by a user whose \<open>company_id\<close> is empty (absent, or the
  empty text) fails with 400 \<open>User has no company assigned\<close> and leaves the store
  as it was.
\<close>

theorem create_rank_no_company:
  assumes "u_company_id u = None \<or> u_company_id u = Some []"
  shows "create_rank now rid db data u
           = (Inl (HTTPException 400 ''User has no company assigned''), db)"
  using assms by (auto simp: create_rank_def)

theorem create_rank_no_company_witness:
  "create_rank 3 (OID ''dddddddddddddddddddddddd'') alice_store (lunch 4) alice
     = (Inl (HTTPException 400 ''User has no company assigned''), alice_store)
   \<and> create_rank 3 (OID ''dddddddddddddddddddddddd'') alice_store (lunch 4)
        (alice\<lparr>u_company_id := Some []\<rparr>)
     = (Inl (HTTPException 400 ''User has no company assigned''), alice_store)"
proof -
  have a: "u_company_id alice = None \<or> u_company_id alice = Some []"
    by (simp add: alice_def)
  have b: "u_company_id (alice\<lparr>u_company_id := Some []\<rparr>) = None
           \<or> u_company_id (alice\<lparr>u_company_id := Some []\<rparr>) = Some []"
    by simp
  show ?thesis
    using create_rank_no_company [OF a] create_rank_no_company [OF b]
    by simp
qed

text \<open>
  C8. For a user with a company assigned, a rank-creation request fails with 400
  \<open>Rating must be 1-5\<close>, writing nothing, when the rating is below 1 or above 5,
  and succeeds with the rating stored when it is from 1 to 5, both ends included.
\<close>

theorem create_rank_rating_bounds:
  assumes "u_company_id u = Some cid" and "cid \<noteq> []"
  shows "(rcm_rating data < 1 \<or> 5 < rcm_rating data \<longrightarrow>
            create_rank now rid db data u = (Inl (HTTPException 400 ''Rating must be 1-5''), db))
       \<and> (1 \<le> rcm_rating data \<and> rcm_rating data \<le> 5 \<longrightarrow>
            (\<exists>doc. create_rank now rid db data u
                     = (Inr doc, db\<lparr>foodrank_coll := foodrank_coll db @ [doc]\<rparr>)
                  \<and> fr_rating doc = rcm_rating data))"
  using assms by (auto simp: create_rank_def Let_def insert_one_def)

theorem create_rank_rating_bounds_witness:
  "create_rank 3 (OID ''dddddddddddddddddddddddd'') empty_store (lunch 0) carol
     = (Inl (HTTPException 400 ''Rating must be 1-5''), empty_store)
   \<and> create_rank 3 (OID ''dddddddddddddddddddddddd'') empty_store (lunch 6) carol
     = (Inl (HTTPException 400 ''Rating must be 1-5''), empty_store)
   \<and> (\<exists>doc. create_rank 3 (OID ''dddddddddddddddddddddddd'') empty_store (lunch 1) carol
              = (Inr doc, empty_store\<lparr>foodrank_coll := foodrank_coll empty_store @ [doc]\<rparr>)
            \<and> fr_rating doc = 1)
   \<and> (\<exists>doc. create_rank 3 (OID ''dddddddddddddddddddddddd'') empty_store (lunch 5) carol
              = (Inr doc, empty_store\<lparr>foodrank_coll := foodrank_coll empty_store @ [doc]\<rparr>)
            \<and> fr_rating doc = 5)"
proof -
  have c: "u_company_id carol = Some ''aaaaaaaaaaaaaaaaaaaaaaaa''"
    by (simp add: carol_def)
  have ne: "''aaaaaaaaaaaaaaaaaaaaaaaa'' \<noteq> []"
    by simp
  have r: "rcm_rating (lunch k) = k" for k
    by (simp add: lunch_def)
  show ?thesis
    using create_rank_rating_bounds [OF c ne, of "lunch 0" 3 "OID ''dddddddddddddddddddddddd''" empty_store]
          create_rank_rating_bounds [OF c ne, of "lunch 6" 3 "OID ''dddddddddddddddddddddddd''" empty_store]
          create_rank_rating_bounds [OF c ne, of "lunch 1" 3 "OID ''dddddddddddddddddddddddd''" empty_store]
          create_rank_rating_bounds [OF c ne, of "lunch 5" 3 "OID ''dddddddddddddddddddddddd''" empty_store]
    by (simp only: r) simp
qed

text \<open>
  C9, as the claim states it, fails for a user without a cafe name:
  \<^verbatim>\<open>user.get("cafe_name") or ""\<close> stores the empty text on the rank, while the
  profile value is \<open>None\<close>.
\<close>

theorem create_rank_cafe_name_counterexample:
  "u_cafe_name dave = None
   \<and> map_sum id fr_cafe_name
        (fst (create_rank 3 (OID ''dddddddddddddddddddddddd'') empty_store (lunch 4) dave))
      = Inr []
   \<and> Some [] \<noteq> u_cafe_name dave"
  by (simp add: create_rank_def Let_def example_defs)

text \<open>
  C9, amended. A successful rank creation stores exactly one new rank, whose
  \<open>company_id\<close> and \<open>country\<close> equal the posting user's profile values and whose
  \<open>cafe_name\<close> is the user's cafe name when the user has one and the empty text
  when the user has none.
\<close>

theorem create_rank_snapshot:
  assumes "create_rank now rid db data u = (Inr doc, db')"
  shows "db' = db\<lparr>foodrank_coll := foodrank_coll db @ [doc]\<rparr>
       \<and> Some (fr_company_id doc) = u_company_id u
       \<and> fr_country doc = u_country u
       \<and> fr_cafe_name doc = (case u_cafe_name u of None \<Rightarrow> [] | Some n \<Rightarrow> n)"
  using assms
  by (auto simp: create_rank_def Let_def insert_one_def split: option.splits if_splits)

theorem create_rank_snapshot_witness:
  "create_rank 3 (OID ''dddddddddddddddddddddddd'') empty_store (lunch 4) carol
     = (Inr carol_rank, empty_store\<lparr>foodrank_coll := [carol_rank]\<rparr>)
   \<and> Some (fr_company_id carol_rank) = u_company_id carol
   \<and> fr_country carol_rank = u_country carol
   \<and> fr_cafe_name carol_rank = ''Canteen''"
proof -
  have run: "create_rank 3 (OID ''dddddddddddddddddddddddd'') empty_store (lunch 4) carol
               = (Inr carol_rank, empty_store\<lparr>foodrank_coll := [carol_rank]\<rparr>)"
    by (simp add: create_rank_def Let_def insert_one_def example_defs)
  have n: "u_cafe_name carol = Some ''Canteen''"
    by (simp add: carol_def)
  show ?thesis
    using run create_rank_snapshot [OF run]
    by (simp only: n) simp
qed

end
